theory Spec2Isabelle
  imports Main
begin

section \<open>JavaScript values and library functions used by server.js\<close>

text \<open>
  The development follows \<open>server.js\<close>: the job registry, the two-stage pipeline
  started by \<open>POST /api/download\<close>, and the delivery endpoint \<open>GET /api/file\<close>.
\<close>

text \<open>
  A JavaScript value that is either a string or \<open>undefined\<close>/\<open>null\<close> is a
  \<open>string option\<close>. Strings are lists of characters; every library function below works
  character by character, as the JavaScript original works code unit by code unit.
\<close>

text \<open>Truthiness: \<open>undefined\<close> and the empty string are falsy, every other string is truthy.\<close>

definition truthy :: "string option \<Rightarrow> bool" where
  "truthy x = (case x of None \<Rightarrow> False | Some v \<Rightarrow> v \<noteq> [])"

text \<open>\<open>x && y\<close> and \<open>x || y\<close> on optional strings.\<close>

definition js_and :: "string option \<Rightarrow> string option \<Rightarrow> string option" where
  "js_and x y = (if truthy x then y else x)"

definition js_or :: "string option \<Rightarrow> string option \<Rightarrow> string option" where
  "js_or x y = (if truthy x then x else y)"

text \<open>\<open>x || 'literal'\<close>, whose value is always a string.\<close>

definition or_default :: "string option \<Rightarrow> string \<Rightarrow> string" where
  "or_default x d = (case js_or x (Some d) of None \<Rightarrow> d | Some v \<Rightarrow> v)"

text \<open>A value interpolated into a template literal: \<open>`${x}`\<close>.\<close>

definition template :: "string option \<Rightarrow> string" where
  "template x = (case x of None \<Rightarrow> ''undefined'' | Some v \<Rightarrow> v)"

text \<open>\<open>String.prototype.endsWith\<close>.\<close>

definition endsWith :: "string \<Rightarrow> string \<Rightarrow> bool" where
  "endsWith s suf = (length suf \<le> length s \<and> drop (length s - length suf) s = suf)"

text \<open>\<open>String.prototype.lastIndexOf\<close> for a single character: \<open>-1\<close> when it does not occur.\<close>

definition lastIndexOf :: "string \<Rightarrow> char \<Rightarrow> int" where
  "lastIndexOf s c =
     (if c \<in> set s then int (length s) - 1 - int (length (takeWhile (\<lambda>x. x \<noteq> c) (rev s)))
      else - 1)"

text \<open>
  \<open>String.prototype.substring(start, end)\<close>: both indices are clamped to the string and
  swapped when \<open>start > end\<close>.
\<close>

definition substring :: "string \<Rightarrow> int \<Rightarrow> int \<Rightarrow> string" where
  "substring s a b =
     (let n = int (length s);
          a' = max 0 (min a n);
          b' = max 0 (min b n);
          lo = min a' b';
          hi = max a' b'
      in take (nat (hi - lo)) (drop (nat lo) s))"

text \<open>
  \<open>path.basename\<close> (POSIX flavour): trailing slashes are dropped, then everything up to
  the last remaining slash.
\<close>

definition basename :: "string \<Rightarrow> string" where
  "basename p =
     (let q = dropWhile (\<lambda>c. c = CHR ''/'') (rev p)
      in rev (takeWhile (\<lambda>c. c \<noteq> CHR ''/'') q))"

text \<open>
  \<open>path.join(TEMP_DIR, name)\<close> for a normalised absolute directory and a name without
  separators, which is what \<open>path.basename\<close> returns: the directory, a separator, the
  name. An empty name and the name \<open>.\<close> add nothing; the name \<open>..\<close> gives the parent
  directory.
\<close>

definition parent_dir :: "string \<Rightarrow> string" where
  "parent_dir dir =
     (let up = rev (drop 1 (dropWhile (\<lambda>c. c \<noteq> CHR ''/'') (rev dir)))
      in if up = [] then ''/'' else up)"

definition path_join :: "string \<Rightarrow> string \<Rightarrow> string" where
  "path_join dir name =
     (if name = [] \<or> name = ''.'' then dir
      else if name = ''..'' then parent_dir dir
      else dir @ ''/'' @ name)"

text \<open>
  The character class \<open>/[^a-z0-9]/gi\<close> of the two title sanitisers. Without the \<open>u\<close> flag
  a case-insensitive class member matches a character when both have the same
  canonical (upper-case) form, and a character outside ASCII never canonicalises to an
  ASCII one, so it keeps its own form here. Characters are Isabelle's 8-bit characters.
\<close>

definition canonicalize :: "char \<Rightarrow> char" where
  "canonicalize c =
     (let n = of_char c :: nat in if 97 \<le> n \<and> n \<le> 122 then char_of (n - 32) else c)"

definition class_a_z_0_9 :: "char list" where
  "class_a_z_0_9 = ''abcdefghijklmnopqrstuvwxyz0123456789''"

definition matches_class_i :: "char \<Rightarrow> bool" where
  "matches_class_i c = (canonicalize c \<in> canonicalize ` set class_a_z_0_9)"

text \<open>\<open>title.replace(/[^a-z0-9]/gi, '_')\<close>: every character not matched by the class
  becomes an underscore.\<close>

definition replace_non_alnum :: "string \<Rightarrow> string" where
  "replace_non_alnum t = map (\<lambda>c. if matches_class_i c then c else CHR ''_'') t"

section \<open>Job records, the registry and the working directory\<close>

datatype status = Downloading | Completed | Error

record job =
  status :: status
  progress :: string
  job_file :: "string option"
  customTag :: string
  title :: "string option"

text \<open>
  Effects are recorded in the order in which the program performs them: calls into the
  file system, the external \<open>ffmpeg\<close> process, and writes to the \<open>jobs\<close> object.
\<close>

datatype action =
    Created string
  | SetProgress string string
  | SetStatus string status
  | SetFile string string
  | Deleted string
  | Spawn string string string
  | Unlink string
  | Rename string string

text \<open>
  The state of the server process: the global \<open>jobs\<close> object, the files on disk (path to
  content), the configured \<open>TEMP_DIR\<close>, and the effects so far. \<open>denied\<close> is the
  environment's part in \<open>fs.unlinkSync\<close> and \<open>fs.renameSync\<close>: the paths on which the
  operating system refuses the operation (\<open>EPERM\<close>, \<open>EBUSY\<close>), which is what the
  \<open>try/catch\<close> blocks around those calls are written for.
\<close>

record state =
  jobs :: "string \<rightharpoonup> job"
  files :: "string \<rightharpoonup> string"
  denied :: "string set"
  tempDir :: string
  trace :: "action list"

datatype js_error = TypeError | ENOENT | EPERM

text \<open>
  A statement sequence either runs to its end or throws; the state reached at the throw
  is kept, since the effects before it are not undone.
\<close>

datatype 'a result = Ok 'a | Threw js_error 'a

definition and_then :: "'a result \<Rightarrow> ('a \<Rightarrow> 'a result) \<Rightarrow> 'a result" where
  "and_then r f = (case r of Ok s \<Rightarrow> f s | Threw e s \<Rightarrow> Threw e s)"

definition state_of :: "'a result \<Rightarrow> 'a" where
  "state_of r = (case r of Ok s \<Rightarrow> s | Threw e s \<Rightarrow> s)"

definition threw :: "'a result \<Rightarrow> bool" where
  "threw r = (case r of Ok s \<Rightarrow> False | Threw e s \<Rightarrow> True)"

text \<open>\<open>try { body } catch (e) { logger(...) }\<close>: the handler only logs.\<close>

definition try_catch_log :: "state result \<Rightarrow> state" where
  "try_catch_log r = state_of r"

subsection \<open>File system calls\<close>

definition existsSync :: "string \<Rightarrow> state \<Rightarrow> bool" where
  "existsSync p s = (files s p \<noteq> None)"

definition unlinkSync :: "string \<Rightarrow> state \<Rightarrow> state result" where
  "unlinkSync p s =
     (if files s p = None then Threw ENOENT s
      else if p \<in> denied s then Threw EPERM s
      else Ok (s\<lparr>files := (files s)(p := None), trace := trace s @ [Unlink p]\<rparr>))"

definition renameSync :: "string \<Rightarrow> string \<Rightarrow> state \<Rightarrow> state result" where
  "renameSync src dst s =
     (case files s src of
        None \<Rightarrow> Threw ENOENT s
      | Some c \<Rightarrow>
          if src \<in> denied s then Threw EPERM s
          else Ok (s\<lparr>files := ((files s)(src := None))(dst \<mapsto> c),
                     trace := trace s @ [Rename src dst]\<rparr>))"

text \<open>
  \<open>spawnSync('ffmpeg', [..., '-i', finalFile, '-i', thumbFile, ..., embeddedFile])\<close>.
  The call returns an object and does not throw when the process fails. What the
  process did is the environment's choice: whether it exited with status zero, and
  what it left at the output path (nothing, or a file with some content).
\<close>

datatype spawn_outcome = Exited bool "string option"

definition spawnSync_ffmpeg ::
  "spawn_outcome \<Rightarrow> string \<Rightarrow> string \<Rightarrow> string \<Rightarrow> state \<Rightarrow> state" where
  "spawnSync_ffmpeg env finalFile thumbFile embeddedFile s =
     (case env of
        Exited ok written \<Rightarrow>
          s\<lparr>files := (case written of None \<Rightarrow> files s
                       | Some c \<Rightarrow> (files s)(embeddedFile \<mapsto> c)),
            trace := trace s @ [Spawn finalFile thumbFile embeddedFile]\<rparr>)"

subsection \<open>Writes to the \<open>jobs\<close> object\<close>

text \<open>
  \<open>jobs[jobId].field = v\<close> throws a \<open>TypeError\<close> when \<open>jobs[jobId]\<close> is undefined.
\<close>

definition set_progress :: "string \<Rightarrow> string \<Rightarrow> state \<Rightarrow> state result" where
  "set_progress jobId v s =
     (case jobs s jobId of
        None \<Rightarrow> Threw TypeError s
      | Some j \<Rightarrow> Ok (s\<lparr>jobs := (jobs s)(jobId \<mapsto> j\<lparr>progress := v\<rparr>),
                        trace := trace s @ [SetProgress jobId v]\<rparr>))"

definition set_status :: "string \<Rightarrow> status \<Rightarrow> state \<Rightarrow> state result" where
  "set_status jobId v s =
     (case jobs s jobId of
        None \<Rightarrow> Threw TypeError s
      | Some j \<Rightarrow> Ok (s\<lparr>jobs := (jobs s)(jobId \<mapsto> j\<lparr>status := v\<rparr>),
                        trace := trace s @ [SetStatus jobId v]\<rparr>))"

definition set_file :: "string \<Rightarrow> string \<Rightarrow> state \<Rightarrow> state result" where
  "set_file jobId v s =
     (case jobs s jobId of
        None \<Rightarrow> Threw TypeError s
      | Some j \<Rightarrow> Ok (s\<lparr>jobs := (jobs s)(jobId \<mapsto> j\<lparr>job_file := Some v\<rparr>),
                        trace := trace s @ [SetFile jobId v]\<rparr>))"

text \<open>\<open>delete jobs[jobId]\<close> never throws.\<close>

definition delete_job :: "string \<Rightarrow> state \<Rightarrow> state result" where
  "delete_job jobId s =
     Ok (s\<lparr>jobs := (jobs s)(jobId := None), trace := trace s @ [Deleted jobId]\<rparr>)"

section \<open>POST /api/download: submission (server.js, lines 226-315)\<close>

text \<open>
  The fields of the request body that the handler reads. Each may be absent. The URL
  only travels through \<open>cleanMediaUrl\<close> to the downloader and is left out.
\<close>

record request =
  vId :: "string option"
  aId :: "string option"
  vLabel :: "string option"
  aLabel :: "string option"
  req_title :: "string option"

definition extension :: string where
  "extension = ''mp4''"

text \<open>\<open>`${vLabel || 'NoVideo'}_${aLabel || 'NoAudio'}`\<close>\<close>

definition namingTag :: "request \<Rightarrow> string" where
  "namingTag body = or_default (vLabel body) ''NoVideo'' @ ''_'' @ or_default (aLabel body) ''NoAudio''"

text \<open>\<open>(vId && aId) ? `${vId}+${aId}` : (vId || aId)\<close>\<close>

definition formatSelection :: "string option \<Rightarrow> string option \<Rightarrow> string option" where
  "formatSelection v a =
     (if truthy (js_and v a) then Some (template v @ ''+'' @ template a) else js_or v a)"

text \<open>
  What the handler hands to the outside: the JSON response \<open>{ jobId }\<close> and the argument
  of \<open>.format(...)\<close> with which the downloader is started.
\<close>

record submission =
  response_jobId :: string
  downloader_format :: "string option"

text \<open>
  The identifier is the value \<open>uuidv4()\<close> returned. The record is stored before the
  downloader is started; the handler has no branch that rejects a request.
\<close>

definition post_download :: "string \<Rightarrow> request \<Rightarrow> state \<Rightarrow> submission \<times> state" where
  "post_download jobId body s =
     (let s1 = s\<lparr>jobs := (jobs s)(jobId \<mapsto>
                     \<lparr>status = Downloading, progress = ''0%'', job_file = None,
                      customTag = namingTag body, title = req_title body\<rparr>),
                 trace := trace s @ [Created jobId]\<rparr>
      in (\<lparr>response_jobId = jobId, downloader_format = formatSelection (vId body) (aId body)\<rparr>,
          s1))"

section \<open>The job pipeline (server.js, lines 251-312)\<close>

text \<open>The \<open>progress\<close> listener (lines 255-261).\<close>

definition on_progress :: "string \<Rightarrow> string option \<Rightarrow> state \<Rightarrow> state result" where
  "on_progress jobId percentage_str s =
     (if jobs s jobId \<noteq> None then set_progress jobId (or_default percentage_str ''0%'') s
      else Ok s)"

text \<open>
  \<open>result.filePaths.find(p => p.endsWith(`.${extension}`)) || result.filePaths[0]\<close> on a
  list known to be non-empty. A path found ends in \<open>.mp4\<close>, so it is truthy.
\<close>

definition select_finalFile :: "string \<Rightarrow> string list \<Rightarrow> string" where
  "select_finalFile p0 ps =
     (case find (\<lambda>p. endsWith p (''.'' @ extension)) (p0 # ps) of
        Some p \<Rightarrow> p
      | None \<Rightarrow> p0)"

definition baseName_of :: "string \<Rightarrow> string" where
  "baseName_of finalFile = substring finalFile 0 (lastIndexOf finalFile CHR ''.'')"

definition possibleThumbs :: "string \<Rightarrow> string list" where
  "possibleThumbs baseName = [baseName @ ''.jpg'', baseName @ ''.webp'', baseName @ ''.png'']"

definition embeddedFile_of :: "string \<Rightarrow> string" where
  "embeddedFile_of baseName = baseName @ ''_with_thumb.'' @ extension"

text \<open>The body of the \<open>try\<close> block (lines 275-296).\<close>

definition embed_body :: "spawn_outcome \<Rightarrow> string \<Rightarrow> string \<Rightarrow> state \<Rightarrow> state result" where
  "embed_body env finalFile thumbFile s =
     (let embeddedFile = embeddedFile_of (baseName_of finalFile);
          s1 = spawnSync_ffmpeg env finalFile thumbFile embeddedFile s
      in if existsSync embeddedFile s1
         then and_then (and_then (unlinkSync finalFile s1) (unlinkSync thumbFile))
                (renameSync embeddedFile finalFile)
         else Ok s1)"

text \<open>Task 2 (lines 268-300): probe for the thumbnail, embed it when both files exist.\<close>

definition thumbnail_task :: "spawn_outcome \<Rightarrow> string \<Rightarrow> state \<Rightarrow> state" where
  "thumbnail_task env finalFile s =
     (case find (\<lambda>f. existsSync f s) (possibleThumbs (baseName_of finalFile)) of
        None \<Rightarrow> s
      | Some thumbFile \<Rightarrow>
          if existsSync finalFile s then try_catch_log (embed_body env finalFile thumbFile s)
          else s)"

text \<open>Lines 302-306.\<close>

definition mark_completed :: "string \<Rightarrow> string \<Rightarrow> state \<Rightarrow> state result" where
  "mark_completed jobId finalFile s =
     (if jobs s jobId \<noteq> None
      then and_then (set_status jobId Completed s) (set_file jobId (basename finalFile))
      else Ok s)"

text \<open>
  The \<open>.then\<close> handler (lines 263-308), run when the downloader's promise resolves with
  \<open>result.filePaths\<close> (possibly undefined).
\<close>

definition then_handler ::
  "string \<Rightarrow> string list option \<Rightarrow> spawn_outcome \<Rightarrow> state \<Rightarrow> state result" where
  "then_handler jobId filePaths env s =
     (case filePaths of
        None \<Rightarrow> Ok s
      | Some [] \<Rightarrow> Ok s
      | Some (p0 # ps) \<Rightarrow>
          (let finalFile = select_finalFile p0 ps
           in mark_completed jobId finalFile (thumbnail_task env finalFile s)))"

text \<open>The \<open>.catch\<close> handler (lines 309-312).\<close>

definition catch_handler :: "string \<Rightarrow> state \<Rightarrow> state result" where
  "catch_handler jobId s =
     (if jobs s jobId \<noteq> None then set_status jobId Error s else Ok s)"

text \<open>
  How the downloader's promise settles. \<open>.then(f).catch(g)\<close> runs \<open>f\<close> on a resolved
  promise and \<open>g\<close> on a rejected one, and also runs \<open>g\<close> when \<open>f\<close> throws.
\<close>

datatype settlement = Resolves "string list option" spawn_outcome | Rejects

definition on_settled :: "string \<Rightarrow> settlement \<Rightarrow> state \<Rightarrow> state result" where
  "on_settled jobId outcome s =
     (case outcome of
        Resolves filePaths env \<Rightarrow>
          (case then_handler jobId filePaths env s of
             Ok s' \<Rightarrow> Ok s'
           | Threw e s' \<Rightarrow> catch_handler jobId s')
      | Rejects \<Rightarrow> catch_handler jobId s)"

section \<open>GET /api/file/:jobId/:title: delivery and cleanup (server.js, lines 323-351)\<close>

datatype response =
    BadRequest400 string
  | ServerError500
  | Download string string

text \<open>
  The handler up to the call of \<open>res.download(filePath, finalName, callback)\<close>.
  \<open>path.join\<close> throws a \<open>TypeError\<close> on \<open>null\<close>, which the framework answers with 500.
\<close>

definition get_file :: "string \<Rightarrow> string \<Rightarrow> state \<Rightarrow> response \<times> state" where
  "get_file jobId title_param s =
     (case jobs s jobId of
        None \<Rightarrow> (BadRequest400 ''File not ready'', s)
      | Some job \<Rightarrow>
          if status job \<noteq> Completed then (BadRequest400 ''File not ready'', s)
          else (case job_file job of
                  None \<Rightarrow> (ServerError500, s)
                | Some f \<Rightarrow>
                    (let filePath = path_join (tempDir s) f;
                         safeTitle = replace_non_alnum title_param;
                         finalName = safeTitle @ ''_'' @ customTag job @ ''.mp4''
                     in (Download filePath finalName, s))))"

text \<open>
  The callback of \<open>res.download\<close> (lines 335-350), run when the transfer has ended;
  \<open>err\<close> tells whether it was interrupted. The error is only logged.
\<close>

definition download_callback :: "string \<Rightarrow> string \<Rightarrow> bool \<Rightarrow> state \<Rightarrow> state" where
  "download_callback jobId filePath err s =
     try_catch_log
       (and_then (if existsSync filePath s then unlinkSync filePath s else Ok s)
          (delete_job jobId))"

text \<open>One request together with the end of its transfer.\<close>

definition delivery_attempt :: "string \<Rightarrow> string \<Rightarrow> bool \<Rightarrow> state \<Rightarrow> response \<times> state" where
  "delivery_attempt jobId title_param err s =
     (case get_file jobId title_param s of
        (Download filePath finalName, s1) \<Rightarrow>
          (Download filePath finalName, download_callback jobId filePath err s1)
      | (r, s1) \<Rightarrow> (r, s1))"

section \<open>Runs of the server\<close>

text \<open>
  The callbacks the event loop may run, in any order: a submission (with the identifier
  generated for it), a progress report, the settlement of a download, a file request,
  and the end of a transfer (for the job and path its request computed). An uncaught
  exception ends the run.
\<close>

datatype event =
    Submit string request
  | Progress string "string option"
  | Settled string settlement
  | FileRequest string string
  | TransferEnd string string bool

definition step :: "event \<Rightarrow> state \<Rightarrow> state result" where
  "step ev s =
     (case ev of
        Submit jobId body \<Rightarrow> Ok (snd (post_download jobId body s))
      | Progress jobId p \<Rightarrow> on_progress jobId p s
      | Settled jobId outcome \<Rightarrow> on_settled jobId outcome s
      | FileRequest jobId t \<Rightarrow> Ok (snd (get_file jobId t s))
      | TransferEnd jobId filePath err \<Rightarrow> Ok (download_callback jobId filePath err s))"

fun run :: "event list \<Rightarrow> state \<Rightarrow> state result" where
  "run [] s = Ok s"
| "run (ev # evs) s = and_then (step ev s) (run evs)"

text \<open>Whether an event submits a job under the given identifier.\<close>

fun submits :: "string \<Rightarrow> event \<Rightarrow> bool" where
  "submits jobId (Submit i body) = (i = jobId)"
| "submits jobId (Progress i p) = False"
| "submits jobId (Settled i outcome) = False"
| "submits jobId (FileRequest i t) = False"
| "submits jobId (TransferEnd i filePath err) = False"

section \<open>The specification's reading of the sanitiser\<close>

text \<open>
  The specification describes the title sanitiser as replacing every character outside
  \<open>[A-Za-z0-9]\<close> by an underscore. This is that description, to be compared with
  \<open>replace_non_alnum\<close>, which follows the regular expression of the source.
\<close>

definition in_A_Za_z0_9 :: "char \<Rightarrow> bool" where
  "in_A_Za_z0_9 c =
     (let n = of_char c :: nat
      in (48 \<le> n \<and> n \<le> 57) \<or> (65 \<le> n \<and> n \<le> 90) \<or> (97 \<le> n \<and> n \<le> 122))"

definition spec_sanitize :: "string \<Rightarrow> string" where
  "spec_sanitize t = map (\<lambda>c. if in_A_Za_z0_9 c then c else CHR ''_'') t"

section \<open>Predicates used in the statements\<close>

text \<open>A job has left the state \<open>downloading\<close>: its record is settled, or removed.\<close>

definition settled_or_gone :: "string \<Rightarrow> state \<Rightarrow> bool" where
  "settled_or_gone jobId s =
     (case jobs s jobId of None \<Rightarrow> True | Some j \<Rightarrow> status j \<noteq> Downloading)"

text \<open>The effects a handler added to the trace of the state it started from.\<close>

definition new_actions :: "state \<Rightarrow> state \<Rightarrow> action list" where
  "new_actions s s' = drop (length (trace s)) (trace s')"

text \<open>Writes to the \<open>jobs\<close> object, as opposed to file system and process actions.\<close>

definition registry_write :: "action \<Rightarrow> bool" where
  "registry_write a =
     (case a of
        Created i \<Rightarrow> True
      | SetProgress i v \<Rightarrow> True
      | SetStatus i v \<Rightarrow> True
      | SetFile i v \<Rightarrow> True
      | Deleted i \<Rightarrow> True
      | Spawn f t e \<Rightarrow> False
      | Unlink p \<Rightarrow> False
      | Rename a b \<Rightarrow> False)"

text \<open>
  The operating system refuses to remove a file that exists: \<open>fs.unlinkSync\<close> on it
  throws.
\<close>

definition removal_refused :: "string \<Rightarrow> state \<Rightarrow> bool" where
  "removal_refused p s = (existsSync p s \<and> p \<in> denied s)"

text \<open>The record of a job, if there is one, carries the given tag.\<close>

definition tag_is :: "string \<Rightarrow> string \<Rightarrow> state \<Rightarrow> bool" where
  "tag_is jobId tag s = (case jobs s jobId of None \<Rightarrow> True | Some j \<Rightarrow> customTag j = tag)"

text \<open>Every completed record names its file.\<close>

definition completed_have_files :: "state \<Rightarrow> bool" where
  "completed_have_files s =
     (\<forall>i j. jobs s i = Some j \<longrightarrow> status j = Completed \<longrightarrow> job_file j \<noteq> None)"

subsection \<open>Example states\<close>

text \<open>
  A job whose download has just finished: the remuxed video and the converted thumbnail
  are in the working directory, the record is still \<open>downloading\<close>.
\<close>

definition downloaded_state :: state where
  "downloaded_state =
     \<lparr>jobs = [''j1'' \<mapsto> \<lparr>status = Downloading, progress = ''100%'', job_file = None,
                         customTag = ''HD_128kbps'', title = Some ''Demo''\<rparr>],
      files = [''/app/temp/a.mp4'' \<mapsto> ''video'', ''/app/temp/a.jpg'' \<mapsto> ''cover''],
      denied = {}, tempDir = ''/app/temp'', trace = []\<rparr>"

text \<open>The same, with a thumbnail that the operating system refuses to remove.\<close>

definition locked_thumbnail_state :: state where
  "locked_thumbnail_state = downloaded_state\<lparr>denied := {''/app/temp/a.jpg''}\<rparr>"

text \<open>
  A completed job whose artifact is in the working directory; in the second state the
  operating system refuses to remove the artifact.
\<close>

definition completed_state :: state where
  "completed_state =
     \<lparr>jobs = [''j1'' \<mapsto> \<lparr>status = Completed, progress = ''100%'', job_file = Some ''a.mp4'',
                         customTag = ''HD_128kbps'', title = Some ''Demo''\<rparr>],
      files = [''/app/temp/a.mp4'' \<mapsto> ''video''],
      denied = {}, tempDir = ''/app/temp'', trace = []\<rparr>"

definition refusing_state :: state where
  "refusing_state = completed_state\<lparr>denied := {''/app/temp/a.mp4''}\<rparr>"

text \<open>The server right after its start.\<close>

definition started_state :: state where
  "started_state =
     \<lparr>jobs = Map.empty, files = Map.empty, denied = {}, tempDir = ''/app/temp'', trace = []\<rparr>"

section \<open>Basic facts about the handlers\<close>

lemma and_then_Ok [simp]: "and_then (Ok s) f = f s"
  by (simp add: and_then_def)

lemma and_then_Threw [simp]: "and_then (Threw e s) f = Threw e s"
  by (simp add: and_then_def)

lemma state_of_simps [simp]: "state_of (Ok s) = s" "state_of (Threw e s) = s"
  by (simp_all add: state_of_def)

lemma threw_simps [simp]: "threw (Ok s) = False" "threw (Threw e s) = True"
  by (simp_all add: threw_def)

text \<open>The file system calls and the external process leave the registry alone.\<close>

lemma unlinkSync_frame:
  "jobs (state_of (unlinkSync p s)) = jobs s"
  "denied (state_of (unlinkSync p s)) = denied s"
  "tempDir (state_of (unlinkSync p s)) = tempDir s"
  by (simp_all add: unlinkSync_def)

lemma renameSync_frame:
  "jobs (state_of (renameSync a b s)) = jobs s"
  "denied (state_of (renameSync a b s)) = denied s"
  "tempDir (state_of (renameSync a b s)) = tempDir s"
  by (simp_all add: renameSync_def split: option.splits)

lemma spawnSync_frame:
  "jobs (spawnSync_ffmpeg env f t e s) = jobs s"
  "denied (spawnSync_ffmpeg env f t e s) = denied s"
  "tempDir (spawnSync_ffmpeg env f t e s) = tempDir s"
  by (simp_all add: spawnSync_ffmpeg_def split: spawn_outcome.splits)

lemma state_of_and_then_jobs:
  assumes "jobs (state_of r) = J" and "\<And>x. jobs (state_of (f x)) = jobs x"
  shows "jobs (state_of (and_then r f)) = J"
  using assms by (cases r) auto

lemma embed_body_jobs: "jobs (state_of (embed_body env f t s)) = jobs s"
  unfolding embed_body_def Let_def
  by (auto intro!: state_of_and_then_jobs simp: unlinkSync_frame renameSync_frame spawnSync_frame)

lemma thumbnail_task_jobs: "jobs (thumbnail_task env f s) = jobs s"
  by (simp add: thumbnail_task_def try_catch_log_def embed_body_jobs split: option.splits)

text \<open>The guarded registry writes, written out.\<close>

lemma mark_completed_result:
  "mark_completed jobId f s =
     (case jobs s jobId of
        None \<Rightarrow> Ok s
      | Some j \<Rightarrow>
          Ok (s\<lparr>jobs := (jobs s)(jobId \<mapsto> j\<lparr>status := Completed, job_file := Some (basename f)\<rparr>),
                trace := trace s @ [SetStatus jobId Completed, SetFile jobId (basename f)]\<rparr>))"
  by (simp add: mark_completed_def set_status_def set_file_def split: option.splits)

lemma catch_handler_result:
  "catch_handler jobId s =
     (case jobs s jobId of
        None \<Rightarrow> Ok s
      | Some j \<Rightarrow>
          Ok (s\<lparr>jobs := (jobs s)(jobId \<mapsto> j\<lparr>status := Error\<rparr>),
                trace := trace s @ [SetStatus jobId Error]\<rparr>))"
  by (simp add: catch_handler_def set_status_def split: option.splits)

lemma on_progress_result:
  "on_progress jobId p s =
     (case jobs s jobId of
        None \<Rightarrow> Ok s
      | Some j \<Rightarrow>
          Ok (s\<lparr>jobs := (jobs s)(jobId \<mapsto> j\<lparr>progress := or_default p ''0%''\<rparr>),
                trace := trace s @ [SetProgress jobId (or_default p ''0%'')]\<rparr>))"
  by (simp add: on_progress_def set_progress_def split: option.splits)

lemma then_handler_not_threw: "\<not> threw (then_handler jobId fps env s)"
  by (simp add: then_handler_def mark_completed_result Let_def split: option.splits list.splits)

lemma then_handler_jobs:
  "jobs (state_of (then_handler jobId fps env s)) =
     (case fps of
        None \<Rightarrow> jobs s
      | Some [] \<Rightarrow> jobs s
      | Some (p0 # ps) \<Rightarrow>
          (case jobs s jobId of
             None \<Rightarrow> jobs s
           | Some j \<Rightarrow> (jobs s)(jobId \<mapsto>
               j\<lparr>status := Completed, job_file := Some (basename (select_finalFile p0 ps))\<rparr>)))"
  by (simp add: then_handler_def mark_completed_result thumbnail_task_jobs Let_def
      split: option.splits list.splits)

text \<open>The \<open>.then\<close> handler never throws, so \<open>.catch\<close> runs on a rejected promise only.\<close>

lemma on_settled_then:
  "on_settled jobId (Resolves fps env) s = then_handler jobId fps env s"
  using then_handler_not_threw [of jobId fps env s]
  by (cases "then_handler jobId fps env s") (simp_all add: on_settled_def)

lemma on_settled_catch: "on_settled jobId Rejects s = catch_handler jobId s"
  by (simp add: on_settled_def)

lemma on_settled_not_threw: "\<not> threw (on_settled jobId outcome s)"
  by (cases outcome)
     (simp_all add: on_settled_then on_settled_catch then_handler_not_threw catch_handler_result
        split: option.splits)

lemma download_callback_jobs:
  "jobs (download_callback jobId fp err s) = jobs s
   \<or> jobs (download_callback jobId fp err s) = (jobs s)(jobId := None)"
  by (auto simp: download_callback_def try_catch_log_def existsSync_def unlinkSync_def
        delete_job_def)

lemma step_not_threw: "\<not> threw (step ev s)"
  by (cases ev)
     (simp_all add: step_def on_progress_result on_settled_not_threw split: option.splits)

lemma step_settled:
  assumes "settled_or_gone jobId s" "\<not> submits jobId ev"
  shows "settled_or_gone jobId (state_of (step ev s))"
proof (cases ev)
  case (Submit i body)
  with assms show ?thesis
    by (auto simp: step_def post_download_def settled_or_gone_def Let_def)
next
  case (Progress i p)
  with assms show ?thesis
    by (auto simp: step_def on_progress_result settled_or_gone_def split: option.splits)
next
  case (Settled i outcome)
  with assms show ?thesis
    by (cases outcome)
       (auto simp: step_def on_settled_then on_settled_catch then_handler_jobs
          catch_handler_result settled_or_gone_def split: option.splits list.splits)
next
  case (FileRequest i t)
  with assms show ?thesis
    by (auto simp: step_def get_file_def settled_or_gone_def Let_def split: option.splits)
next
  case (TransferEnd i fp err)
  with assms download_callback_jobs [of i fp err s] show ?thesis
    by (auto simp: step_def settled_or_gone_def split: option.splits if_splits)
qed

text \<open>What the thumbnail task can do to the trace and the files.\<close>

lemma embed_body_cases:
  "(trace (state_of (embed_body env f t s)) = trace s @ [Spawn f t (embeddedFile_of (baseName_of f))]
      \<and> files (state_of (embed_body env f t s))
          = files (spawnSync_ffmpeg env f t (embeddedFile_of (baseName_of f)) s))
   \<or> (trace (state_of (embed_body env f t s))
          = trace s @ [Spawn f t (embeddedFile_of (baseName_of f)), Unlink f]
      \<and> files (state_of (embed_body env f t s))
          = (files (spawnSync_ffmpeg env f t (embeddedFile_of (baseName_of f)) s))(f := None))
   \<or> (trace (state_of (embed_body env f t s))
          = trace s @ [Spawn f t (embeddedFile_of (baseName_of f)), Unlink f, Unlink t]
      \<and> files (state_of (embed_body env f t s))
          = (files (spawnSync_ffmpeg env f t (embeddedFile_of (baseName_of f)) s))(f := None, t := None))
   \<or> (trace (state_of (embed_body env f t s))
          = trace s @ [Spawn f t (embeddedFile_of (baseName_of f)), Unlink f, Unlink t,
                       Rename (embeddedFile_of (baseName_of f)) f]
      \<and> t \<noteq> f
      \<and> files (spawnSync_ffmpeg env f t (embeddedFile_of (baseName_of f)) s)
            (embeddedFile_of (baseName_of f)) \<noteq> None
      \<and> files (state_of (embed_body env f t s)) f
          = files (spawnSync_ffmpeg env f t (embeddedFile_of (baseName_of f)) s)
              (embeddedFile_of (baseName_of f))
      \<and> files (state_of (embed_body env f t s)) t = None)"
  unfolding embed_body_def Let_def
  by (cases env)
     (auto simp: spawnSync_ffmpeg_def existsSync_def unlinkSync_def renameSync_def
        split: option.splits if_splits)

lemma thumbnail_task_cases:
  "thumbnail_task env f s = s
   \<or> (\<exists>t \<in> set (possibleThumbs (baseName_of f)).
         files s t \<noteq> None \<and> files s f \<noteq> None
         \<and> thumbnail_task env f s = state_of (embed_body env f t s))"
  by (auto simp: thumbnail_task_def try_catch_log_def existsSync_def find_Some_iff
        split: option.splits dest: nth_mem)

lemma thumbnail_task_trace:
  "trace (thumbnail_task env f s) = trace s @ new_actions s (thumbnail_task env f s)
   \<and> (\<forall>a \<in> set (new_actions s (thumbnail_task env f s)). \<not> registry_write a)"
  using thumbnail_task_cases [of env f s]
proof (elim disjE bexE conjE)
  assume "thumbnail_task env f s = s"
  then show ?thesis by (simp add: new_actions_def)
next
  fix t
  assume eq: "thumbnail_task env f s = state_of (embed_body env f t s)"
  show ?thesis
    using embed_body_cases [of env f t s]
    by (auto simp: eq new_actions_def registry_write_def)
qed

lemma thumbnail_task_rename:
  assumes "Rename (embeddedFile_of (baseName_of f)) f \<in> set (new_actions s (thumbnail_task env f s))"
  shows "\<exists>t \<in> set (possibleThumbs (baseName_of f)).
           new_actions s (thumbnail_task env f s)
             = [Spawn f t (embeddedFile_of (baseName_of f)), Unlink f, Unlink t,
                Rename (embeddedFile_of (baseName_of f)) f]
           \<and> files s f \<noteq> None \<and> files s t \<noteq> None
           \<and> files (spawnSync_ffmpeg env f t (embeddedFile_of (baseName_of f)) s)
               (embeddedFile_of (baseName_of f)) \<noteq> None
           \<and> files (thumbnail_task env f s) f
               = files (spawnSync_ffmpeg env f t (embeddedFile_of (baseName_of f)) s)
                   (embeddedFile_of (baseName_of f))
           \<and> files (thumbnail_task env f s) t = None"
  using thumbnail_task_cases [of env f s]
proof (elim disjE bexE conjE)
  assume "thumbnail_task env f s = s"
  with assms show ?thesis by (simp add: new_actions_def)
next
  fix t
  assume t: "t \<in> set (possibleThumbs (baseName_of f))" "files s t \<noteq> None" "files s f \<noteq> None"
    and eq: "thumbnail_task env f s = state_of (embed_body env f t s)"
  show ?thesis
    using embed_body_cases [of env f t s] assms t
    by (intro bexI [of _ t]) (auto simp: eq new_actions_def)
qed

lemma mark_completed_effects:
  "trace (state_of (mark_completed jobId f s)) =
     trace s @ (if jobs s jobId = None then []
                else [SetStatus jobId Completed, SetFile jobId (basename f)])"
  "files (state_of (mark_completed jobId f s)) = files s"
  by (simp_all add: mark_completed_result split: option.splits)

text \<open>The tag of a record is fixed at submission.\<close>

lemma step_tag:
  assumes "tag_is jobId tag s" "\<not> submits jobId ev"
  shows "tag_is jobId tag (state_of (step ev s))"
proof (cases ev)
  case (Submit i body)
  with assms show ?thesis
    by (auto simp: step_def post_download_def tag_is_def Let_def)
next
  case (Progress i p)
  with assms show ?thesis
    by (auto simp: step_def on_progress_result tag_is_def split: option.splits)
next
  case (Settled i outcome)
  with assms show ?thesis
    by (cases outcome)
       (auto simp: step_def on_settled_then on_settled_catch then_handler_jobs
          catch_handler_result tag_is_def split: option.splits list.splits)
next
  case (FileRequest i t)
  with assms show ?thesis
    by (auto simp: step_def get_file_def tag_is_def Let_def split: option.splits)
next
  case (TransferEnd i fp err)
  with assms download_callback_jobs [of i fp err s] show ?thesis
    by (auto simp: step_def tag_is_def split: option.splits if_splits)
qed

lemma run_tag:
  "tag_is jobId tag s \<Longrightarrow> \<forall>ev \<in> set evs. \<not> submits jobId ev \<Longrightarrow>
   tag_is jobId tag (state_of (run evs s))"
proof (induction evs arbitrary: s)
  case Nil
  then show ?case by simp
next
  case (Cons ev evs)
  obtain s1 where s1: "step ev s = Ok s1"
    using step_not_threw [of ev s] by (cases "step ev s") auto
  have "tag_is jobId tag s1"
    using step_tag [of jobId tag s ev] Cons.prems s1 by simp
  then show ?case
    using Cons.IH [of s1] Cons.prems s1 by simp
qed

text \<open>
  A record is marked \<open>completed\<close> together with its file name, so every state reached
  from one in which completed records name their files is such a state.
\<close>

lemma step_completed_have_files:
  assumes "completed_have_files s"
  shows "completed_have_files (state_of (step ev s))"
proof (cases ev)
  case (Submit i body)
  with assms show ?thesis
    by (auto simp: step_def post_download_def completed_have_files_def Let_def)
next
  case (Progress i p)
  with assms show ?thesis
    by (auto simp: step_def on_progress_result completed_have_files_def split: option.splits if_splits)
next
  case (Settled i outcome)
  with assms show ?thesis
    by (cases outcome)
       (auto simp: step_def on_settled_then on_settled_catch then_handler_jobs
          catch_handler_result completed_have_files_def split: option.splits list.splits if_splits)
next
  case (FileRequest i t)
  with assms show ?thesis
    by (auto simp: step_def get_file_def completed_have_files_def Let_def split: option.splits)
next
  case (TransferEnd i fp err)
  with assms download_callback_jobs [of i fp err s] show ?thesis
    by (auto simp: step_def completed_have_files_def split: option.splits if_splits)
qed

lemma run_completed_have_files:
  "completed_have_files s \<Longrightarrow> completed_have_files (state_of (run evs s))"
proof (induction evs arbitrary: s)
  case Nil
  then show ?case by simp
next
  case (Cons ev evs)
  obtain s1 where s1: "step ev s = Ok s1"
    using step_not_threw [of ev s] by (cases "step ev s") auto
  have "completed_have_files s1"
    using step_completed_have_files [of s ev] Cons.prems s1 by simp
  then show ?case
    using Cons.IH [of s1] s1 by simp
qed

text \<open>
  The case-insensitive class of the source matches exactly the characters of
  \<open>[A-Za-z0-9]\<close>: checked on every character.
\<close>

lemma class_is_alnum: "matches_class_i c = in_A_Za_z0_9 c"
proof -
  have "\<forall>c. matches_class_i c = in_A_Za_z0_9 c"
    by code_simp
  then show ?thesis by blast
qed

lemma replace_non_alnum_spec: "replace_non_alnum t = spec_sanitize t"
  by (simp add: replace_non_alnum_def spec_sanitize_def class_is_alnum)

text \<open>The file request and the transfer callback, written out.\<close>

lemma get_file_completed:
  assumes "jobs s jobId = Some j" "status j = Completed" "job_file j = Some f"
  shows "get_file jobId t s =
          (Download (path_join (tempDir s) f) (replace_non_alnum t @ ''_'' @ customTag j @ ''.mp4''), s)"
  using assms by (simp add: get_file_def Let_def)

lemma get_file_not_ready:
  assumes "jobs s jobId = None \<or> (\<exists>j. jobs s jobId = Some j \<and> status j \<noteq> Completed)"
  shows "get_file jobId t s = (BadRequest400 ''File not ready'', s)"
  using assms by (auto simp: get_file_def)

lemma get_file_state: "snd (get_file jobId t s) = s"
  by (simp add: get_file_def Let_def split: option.splits)

lemma download_callback_result:
  "download_callback jobId fp err s =
     (if removal_refused fp s then s
      else s\<lparr>files := (files s)(fp := None), jobs := (jobs s)(jobId := None),
             trace := trace s @ (if existsSync fp s then [Unlink fp] else []) @ [Deleted jobId]\<rparr>)"
  by (auto simp: download_callback_def try_catch_log_def removal_refused_def existsSync_def
        unlinkSync_def delete_job_def fun_upd_idem)

section \<open>Format selection and acceptance of a submission\<close>

text \<open>
  C8. The format expression that the handler passes to the downloader is
  \<open><videoId>+<audioId>\<close> when both stream identifiers of the request are non-empty and
  the single non-empty identifier when exactly one is given. Every submission is
  accepted: the record is created in state \<open>downloading\<close> and the identifier is
  returned, also when both identifiers are empty or absent, and the downloader is then
  started with an undefined or empty format expression.
\<close>

theorem formatSelection_and_acceptance:
  "downloader_format (fst (post_download jobId body s)) = formatSelection (vId body) (aId body)
   \<and> response_jobId (fst (post_download jobId body s)) = jobId
   \<and> jobs (snd (post_download jobId body s)) jobId =
        Some \<lparr>status = Downloading, progress = ''0%'', job_file = None,
              customTag = namingTag body, title = req_title body\<rparr>
   \<and> (vId body = Some v \<and> aId body = Some a \<and> v \<noteq> [] \<and> a \<noteq> [] \<longrightarrow>
        downloader_format (fst (post_download jobId body s)) = Some (v @ ''+'' @ a))
   \<and> (vId body = Some v \<and> v \<noteq> [] \<and> \<not> truthy (aId body) \<longrightarrow>
        downloader_format (fst (post_download jobId body s)) = Some v)
   \<and> (aId body = Some a \<and> a \<noteq> [] \<and> \<not> truthy (vId body) \<longrightarrow>
        downloader_format (fst (post_download jobId body s)) = Some a)
   \<and> (\<not> truthy (vId body) \<and> \<not> truthy (aId body) \<longrightarrow>
        downloader_format (fst (post_download jobId body s)) = None
        \<or> downloader_format (fst (post_download jobId body s)) = Some [])
   \<and> (v \<noteq> [] \<and> a \<noteq> [] \<longrightarrow> formatSelection (Some v) (Some a) = Some (v @ ''+'' @ a))
   \<and> (v \<noteq> [] \<and> \<not> truthy y \<longrightarrow> formatSelection (Some v) y = Some v)
   \<and> (a \<noteq> [] \<and> \<not> truthy x \<longrightarrow> formatSelection x (Some a) = Some a)"
  by (auto simp: formatSelection_def truthy_def js_and_def js_or_def template_def
        post_download_def split: option.splits)

theorem formatSelection_and_acceptance_witness:
  "downloader_format (fst (post_download ''j1''
        \<lparr>vId = Some ''137'', aId = Some ''140'', vLabel = Some ''HD'', aLabel = Some ''128kbps'',
          req_title = Some ''Demo''\<rparr> started_state))
       = Some ''137+140''
   \<and> downloader_format (fst (post_download ''j1''
        \<lparr>vId = Some ''137'', aId = Some [], vLabel = Some ''HD'', aLabel = None,
          req_title = Some ''Demo''\<rparr> started_state))
       = Some ''137''
   \<and> downloader_format (fst (post_download ''j1''
        \<lparr>vId = None, aId = Some ''140'', vLabel = None, aLabel = Some ''128kbps'',
          req_title = Some ''Demo''\<rparr> started_state))
       = Some ''140''
   \<and> response_jobId (fst (post_download ''j1''
        \<lparr>vId = Some [], aId = None, vLabel = None, aLabel = None, req_title = Some ''Demo''\<rparr>
        started_state))
       = ''j1''
   \<and> downloader_format (fst (post_download ''j1''
        \<lparr>vId = Some [], aId = None, vLabel = None, aLabel = None, req_title = Some ''Demo''\<rparr>
        started_state))
       = None
   \<and> jobs (snd (post_download ''j1''
        \<lparr>vId = Some [], aId = None, vLabel = None, aLabel = None, req_title = Some ''Demo''\<rparr>
        started_state)) ''j1''
       = Some \<lparr>status = Downloading, progress = ''0%'', job_file = None,
               customTag = ''NoVideo_NoAudio'', title = Some ''Demo''\<rparr>"
proof -
  have tag: "namingTag
      \<lparr>vId = Some [], aId = None, vLabel = None, aLabel = None, req_title = Some ''Demo''\<rparr>
      = ''NoVideo_NoAudio''"
    "formatSelection (Some []) None = None"
    by code_simp+
  show ?thesis
    using formatSelection_and_acceptance [of "''j1''"
        "\<lparr>vId = Some ''137'', aId = Some ''140'', vLabel = Some ''HD'',
          aLabel = Some ''128kbps'', req_title = Some ''Demo''\<rparr>"
        started_state "''137''" "''140''"]
      formatSelection_and_acceptance [of "''j1''"
        "\<lparr>vId = Some ''137'', aId = Some [], vLabel = Some ''HD'', aLabel = None,
          req_title = Some ''Demo''\<rparr>"
        started_state "''137''" "''140''"]
      formatSelection_and_acceptance [of "''j1''"
        "\<lparr>vId = None, aId = Some ''140'', vLabel = None, aLabel = Some ''128kbps'',
          req_title = Some ''Demo''\<rparr>"
        started_state "''137''" "''140''"]
      formatSelection_and_acceptance [of "''j1''"
        "\<lparr>vId = Some [], aId = None, vLabel = None, aLabel = None,
          req_title = Some ''Demo''\<rparr>"
        started_state "''137''" "''140''"]
    by (simp add: truthy_def tag)
qed

section \<open>Registry writes for a removed job\<close>

text \<open>
  C9. A progress report or a terminal status write that arrives for a job identifier
  which is no longer in the registry is a silent no-op: the handler does not throw and
  the registry is unchanged, so the record is not brought back.
\<close>

theorem updates_after_removal_are_noops:
  assumes "jobs s jobId = None"
  shows "on_progress jobId p s = Ok s
     \<and> catch_handler jobId s = Ok s
     \<and> on_settled jobId Rejects s = Ok s
     \<and> mark_completed jobId f s = Ok s
     \<and> \<not> threw (then_handler jobId fps env s)
     \<and> jobs (state_of (then_handler jobId fps env s)) = jobs s
     \<and> \<not> threw (on_settled jobId (Resolves fps env) s)
     \<and> jobs (state_of (on_settled jobId (Resolves fps env) s)) = jobs s"
  using assms
  by (simp add: on_progress_result catch_handler_result on_settled_catch mark_completed_result
      then_handler_not_threw then_handler_jobs on_settled_then
      split: option.splits list.splits)

theorem updates_after_removal_are_noops_witness:
  "on_progress ''gone'' (Some ''55%'')
      \<lparr>jobs = Map.empty, files = Map.empty, denied = {}, tempDir = ''/app/temp'', trace = []\<rparr>
     = Ok \<lparr>jobs = Map.empty, files = Map.empty, denied = {}, tempDir = ''/app/temp'', trace = []\<rparr>
   \<and> on_settled ''gone'' Rejects
      \<lparr>jobs = Map.empty, files = Map.empty, denied = {}, tempDir = ''/app/temp'', trace = []\<rparr>
     = Ok \<lparr>jobs = Map.empty, files = Map.empty, denied = {}, tempDir = ''/app/temp'', trace = []\<rparr>
   \<and> jobs (state_of (on_settled ''gone'' (Resolves (Some [''/app/temp/a.mp4'']) (Exited True None))
      \<lparr>jobs = Map.empty, files = Map.empty, denied = {}, tempDir = ''/app/temp'', trace = []\<rparr>))
     = Map.empty"
  using updates_after_removal_are_noops [of
      "\<lparr>jobs = Map.empty, files = Map.empty, denied = {}, tempDir = ''/app/temp'', trace = []\<rparr>"
      "''gone''" "Some ''55%''" "''/app/temp/a.mp4''" "Some [''/app/temp/a.mp4'']" "Exited True None"]
  by simp

section \<open>Failure of the download\<close>

text \<open>
  C4. When the downloader's promise rejects, the handler does not throw, the status of
  the job is set to \<open>error\<close> if its record still exists, no file is touched, and the
  only effect is that status write: \<open>ffmpeg\<close> is not spawned.
\<close>

theorem stage1_failure_sets_error:
  "\<not> threw (on_settled jobId Rejects s)
   \<and> (\<forall>j. jobs s jobId = Some j \<longrightarrow>
         jobs (state_of (on_settled jobId Rejects s)) = (jobs s)(jobId \<mapsto> j\<lparr>status := Error\<rparr>))
   \<and> files (state_of (on_settled jobId Rejects s)) = files s
   \<and> trace (state_of (on_settled jobId Rejects s)) =
        trace s @ new_actions s (state_of (on_settled jobId Rejects s))
   \<and> (\<forall>f t e. Spawn f t e \<notin> set (new_actions s (state_of (on_settled jobId Rejects s))))"
  by (auto simp: on_settled_catch catch_handler_result new_actions_def split: option.splits)

theorem stage1_failure_sets_error_witness:
  "jobs (state_of (on_settled ''j1'' Rejects
      \<lparr>jobs = [''j1'' \<mapsto> \<lparr>status = Downloading, progress = ''10%'', job_file = None,
                          customTag = ''HD_128kbps'', title = Some ''Demo''\<rparr>],
       files = Map.empty, denied = {}, tempDir = ''/app/temp'', trace = []\<rparr>)) ''j1''
   = Some \<lparr>status = Error, progress = ''10%'', job_file = None,
           customTag = ''HD_128kbps'', title = Some ''Demo''\<rparr>"
  using stage1_failure_sets_error [of "''j1''"
      "\<lparr>jobs = [''j1'' \<mapsto> \<lparr>status = Downloading, progress = ''10%'', job_file = None,
                          customTag = ''HD_128kbps'', title = Some ''Demo''\<rparr>],
       files = Map.empty, denied = {}, tempDir = ''/app/temp'', trace = []\<rparr>"]
  by simp

section \<open>Monotonicity of the status\<close>

text \<open>
  C3. Once the status of a job is \<open>completed\<close> or \<open>error\<close>, no sequence of callbacks
  (progress reports, settlements of downloads with either outcome of the thumbnail task,
  file requests and ends of transfers, for this or any other job, and submissions under
  other identifiers) makes it \<open>downloading\<close> again: after every such run the record is
  either removed or still not \<open>downloading\<close>, and none of the callbacks throws.
\<close>

theorem status_monotonic:
  assumes "jobs s jobId = Some j" and "status j \<noteq> Downloading"
    and "\<forall>ev \<in> set evs. \<not> submits jobId ev"
  shows "\<not> threw (run evs s) \<and> settled_or_gone jobId (state_of (run evs s))"
proof -
  have start: "settled_or_gone jobId s"
    using assms(1,2) by (simp add: settled_or_gone_def)
  show ?thesis
    using start assms(3)
  proof (induction evs arbitrary: s)
    case Nil
    then show ?case by simp
  next
    case (Cons ev evs)
    obtain s1 where s1: "step ev s = Ok s1"
      using step_not_threw [of ev s] by (cases "step ev s") auto
    have "settled_or_gone jobId s1"
      using step_settled [of jobId s ev] Cons.prems s1 by simp
    then show ?case
      using Cons.IH [of s1] Cons.prems s1 by simp
  qed
qed

theorem status_monotonic_witness:
  "settled_or_gone ''j1'' (state_of (run
      [Progress ''j1'' (Some ''99%''),
       Settled ''j1'' Rejects,
       Settled ''j1'' (Resolves (Some [''/app/temp/a.mp4'']) (Exited True None)),
       Submit ''j2'' \<lparr>vId = Some ''137'', aId = None, vLabel = None, aLabel = None,
                      req_title = None\<rparr>]
      \<lparr>jobs = [''j1'' \<mapsto> \<lparr>status = Completed, progress = ''100%'', job_file = Some ''a.mp4'',
                          customTag = ''HD_128kbps'', title = Some ''Demo''\<rparr>],
       files = Map.empty, denied = {}, tempDir = ''/app/temp'', trace = []\<rparr>))"
  using status_monotonic [of
      "\<lparr>jobs = [''j1'' \<mapsto> \<lparr>status = Completed, progress = ''100%'', job_file = Some ''a.mp4'',
                          customTag = ''HD_128kbps'', title = Some ''Demo''\<rparr>],
       files = Map.empty, denied = {}, tempDir = ''/app/temp'', trace = []\<rparr>"
      "''j1''"
      "\<lparr>status = Completed, progress = ''100%'', job_file = Some ''a.mp4'',
        customTag = ''HD_128kbps'', title = Some ''Demo''\<rparr>"
      "[Progress ''j1'' (Some ''99%''),
       Settled ''j1'' Rejects,
       Settled ''j1'' (Resolves (Some [''/app/temp/a.mp4'']) (Exited True None)),
       Submit ''j2'' \<lparr>vId = Some ''137'', aId = None, vLabel = None, aLabel = None,
                      req_title = None\<rparr>]"]
  by simp

section \<open>Ordering of the replacement and the completion mark\<close>

text \<open>
  The order of effects in the handler. When the download has resolved with at least
  one path, the handler is the thumbnail task followed by the completion mark: the mark
  is the last effect, every effect before it is a file system or process action, and
  the files do not change while or after the record is marked. When the task replaces
  the artifact (the rename of the embedded output onto the artifact's name is among the
  effects), the effects are, in this order: the \<open>ffmpeg\<close> call, the removal of the
  original artifact, the removal of the thumbnail, the rename, and only then the status
  and file writes; at that point the artifact's name holds what the embedded output
  held and the thumbnail is gone.
\<close>

lemma replacement_before_completed:
  "let f = select_finalFile p0 ps;
       e = embeddedFile_of (baseName_of f);
       s2 = thumbnail_task env f s;
       s' = state_of (then_handler jobId (Some (p0 # ps)) env s);
       marks = (if jobs s jobId = None then []
                else [SetStatus jobId Completed, SetFile jobId (basename f)])
   in then_handler jobId (Some (p0 # ps)) env s = mark_completed jobId f s2
      \<and> files s' = files s2
      \<and> trace s' = trace s @ new_actions s s2 @ marks
      \<and> (\<forall>a \<in> set (new_actions s s2). \<not> registry_write a)
      \<and> (Rename e f \<in> set (new_actions s s') \<longrightarrow>
           (\<exists>t \<in> set (possibleThumbs (baseName_of f)).
              new_actions s s' = [Spawn f t e, Unlink f, Unlink t, Rename e f] @ marks
              \<and> files s f \<noteq> None \<and> files s t \<noteq> None
              \<and> files s' f = files (spawnSync_ffmpeg env f t e s) e
              \<and> files s' f \<noteq> None
              \<and> files s' t = None))"
proof -
  define f where "f = select_finalFile p0 ps"
  define e where "e = embeddedFile_of (baseName_of f)"
  define s2 where "s2 = thumbnail_task env f s"
  define marks where "marks = (if jobs s jobId = None then []
                else [SetStatus jobId Completed, SetFile jobId (basename f)])"
  have th: "then_handler jobId (Some (p0 # ps)) env s = mark_completed jobId f s2"
    by (simp add: then_handler_def f_def s2_def Let_def)
  have j2: "jobs s2 = jobs s"
    by (simp add: s2_def thumbnail_task_jobs)
  have tr2: "trace s2 = trace s @ new_actions s s2"
    and fs2: "\<forall>a \<in> set (new_actions s s2). \<not> registry_write a"
    using thumbnail_task_trace [of env f s] by (simp_all add: s2_def)
  have fl: "files (state_of (mark_completed jobId f s2)) = files s2"
    by (simp add: mark_completed_effects)
  have tr: "trace (state_of (mark_completed jobId f s2)) = trace s @ new_actions s s2 @ marks"
    using tr2 by (simp add: mark_completed_effects j2 marks_def)
  have na: "new_actions s (state_of (mark_completed jobId f s2)) = new_actions s s2 @ marks"
    using tr by (simp add: new_actions_def)
  have rn: "\<exists>t \<in> set (possibleThumbs (baseName_of f)).
              new_actions s (state_of (mark_completed jobId f s2))
                = [Spawn f t e, Unlink f, Unlink t, Rename e f] @ marks
              \<and> files s f \<noteq> None \<and> files s t \<noteq> None
              \<and> files (state_of (mark_completed jobId f s2)) f
                  = files (spawnSync_ffmpeg env f t e s) e
              \<and> files (state_of (mark_completed jobId f s2)) f \<noteq> None
              \<and> files (state_of (mark_completed jobId f s2)) t = None"
    if "Rename e f \<in> set (new_actions s (state_of (mark_completed jobId f s2)))"
  proof -
    from that have "Rename e f \<in> set (new_actions s s2)"
      by (auto simp: na marks_def split: if_splits)
    then show ?thesis
      using thumbnail_task_rename [of f s env] by (auto simp: e_def s2_def [symmetric] na fl)
  qed
  have "mark_completed jobId f s2 = mark_completed jobId f s2
      \<and> files (state_of (mark_completed jobId f s2)) = files s2
      \<and> trace (state_of (mark_completed jobId f s2)) = trace s @ new_actions s s2 @ marks
      \<and> (\<forall>a \<in> set (new_actions s s2). \<not> registry_write a)
      \<and> (Rename e f \<in> set (new_actions s (state_of (mark_completed jobId f s2))) \<longrightarrow>
           (\<exists>t \<in> set (possibleThumbs (baseName_of f)).
              new_actions s (state_of (mark_completed jobId f s2))
                = [Spawn f t e, Unlink f, Unlink t, Rename e f] @ marks
              \<and> files s f \<noteq> None \<and> files s t \<noteq> None
              \<and> files (state_of (mark_completed jobId f s2)) f
                  = files (spawnSync_ffmpeg env f t e s) e
              \<and> files (state_of (mark_completed jobId f s2)) f \<noteq> None
              \<and> files (state_of (mark_completed jobId f s2)) t = None))"
    using fl tr fs2 rn by blast
  then show ?thesis
    unfolding Let_def th [unfolded f_def s2_def] f_def e_def s2_def marks_def .
qed

lemma replacement_before_completed_example:
  "new_actions downloaded_state
      (state_of (then_handler ''j1'' (Some [''/app/temp/a.mp4''])
         (Exited True (Some ''video+cover'')) downloaded_state))
     = [Spawn ''/app/temp/a.mp4'' ''/app/temp/a.jpg'' ''/app/temp/a_with_thumb.mp4'',
        Unlink ''/app/temp/a.mp4'', Unlink ''/app/temp/a.jpg'',
        Rename ''/app/temp/a_with_thumb.mp4'' ''/app/temp/a.mp4'',
        SetStatus ''j1'' Completed, SetFile ''j1'' ''a.mp4'']
   \<and> files (state_of (then_handler ''j1'' (Some [''/app/temp/a.mp4''])
         (Exited True (Some ''video+cover'')) downloaded_state)) ''/app/temp/a.mp4''
     = Some ''video+cover''
   \<and> files (state_of (then_handler ''j1'' (Some [''/app/temp/a.mp4''])
         (Exited True (Some ''video+cover'')) downloaded_state)) ''/app/temp/a.jpg'' = None"
proof -
  have run: "new_actions downloaded_state
      (state_of (then_handler ''j1'' (Some [''/app/temp/a.mp4''])
         (Exited True (Some ''video+cover'')) downloaded_state))
     = [Spawn ''/app/temp/a.mp4'' ''/app/temp/a.jpg'' ''/app/temp/a_with_thumb.mp4'',
        Unlink ''/app/temp/a.mp4'', Unlink ''/app/temp/a.jpg'',
        Rename ''/app/temp/a_with_thumb.mp4'' ''/app/temp/a.mp4'',
        SetStatus ''j1'' Completed, SetFile ''j1'' ''a.mp4'']"
    by code_simp
  have names: "select_finalFile ''/app/temp/a.mp4'' [] = ''/app/temp/a.mp4''"
    "embeddedFile_of (baseName_of ''/app/temp/a.mp4'') = ''/app/temp/a_with_thumb.mp4''"
    "possibleThumbs (baseName_of ''/app/temp/a.mp4'')
       = [''/app/temp/a.jpg'', ''/app/temp/a.webp'', ''/app/temp/a.png'']"
    "files (spawnSync_ffmpeg (Exited True (Some ''video+cover'')) ''/app/temp/a.mp4''
        ''/app/temp/a.jpg'' ''/app/temp/a_with_thumb.mp4'' downloaded_state)
        ''/app/temp/a_with_thumb.mp4'' = Some ''video+cover''"
    "jobs downloaded_state ''j1'' \<noteq> None"
    by code_simp+
  note last =
    replacement_before_completed [of "''/app/temp/a.mp4''" "[]"
      "Exited True (Some ''video+cover'')" downloaded_state "''j1''", unfolded Let_def,
      THEN conjunct2, THEN conjunct2, THEN conjunct2, THEN conjunct2]
  show ?thesis
    using last by (simp add: names run)
qed

text \<open>
  C5. The registry is to be marked \<open>completed\<close> only once the final artifact is under
  its final name. The handler removes the original artifact before the replacement is
  secured, and its \<open>catch\<close> block only logs. When the removal of the thumbnail (or the
  rename) throws after the original has been removed, the job is marked \<open>completed\<close>
  all the same: the embedded output is still under its temporary name and no file is
  under the artifact's name.
\<close>

theorem interrupted_replacement_marks_completed:
  "files locked_thumbnail_state ''/app/temp/a.mp4'' = Some ''video''
   \<and> new_actions locked_thumbnail_state
        (state_of (on_settled ''j1''
           (Resolves (Some [''/app/temp/a.mp4'']) (Exited True (Some ''video+cover'')))
           locked_thumbnail_state))
     = [Spawn ''/app/temp/a.mp4'' ''/app/temp/a.jpg'' ''/app/temp/a_with_thumb.mp4'',
        Unlink ''/app/temp/a.mp4'',
        SetStatus ''j1'' Completed, SetFile ''j1'' ''a.mp4'']
   \<and> files (state_of (on_settled ''j1''
         (Resolves (Some [''/app/temp/a.mp4'']) (Exited True (Some ''video+cover'')))
         locked_thumbnail_state)) ''/app/temp/a.mp4'' = None
   \<and> files (state_of (on_settled ''j1''
         (Resolves (Some [''/app/temp/a.mp4'']) (Exited True (Some ''video+cover'')))
         locked_thumbnail_state)) ''/app/temp/a_with_thumb.mp4'' = Some ''video+cover''
   \<and> jobs (state_of (on_settled ''j1''
         (Resolves (Some [''/app/temp/a.mp4'']) (Exited True (Some ''video+cover'')))
         locked_thumbnail_state)) ''j1''
      = Some \<lparr>status = Completed, progress = ''100%'', job_file = Some ''a.mp4'',
              customTag = ''HD_128kbps'', title = Some ''Demo''\<rparr>"
  by code_simp

section \<open>The canonical artifact and the completion mark\<close>

lemma find_hd_filter:
  "find P xs = (case filter P xs of [] \<Rightarrow> None | x # _ \<Rightarrow> Some x)"
  by (induction xs) auto

text \<open>
  C6, as amended. When the download resolves with at least one path, the canonical
  artifact is the first returned path that ends in \<open>.mp4\<close>, or the first returned path
  when none does; the handler does not throw; and if the record of the job is still in
  the registry, its status becomes \<open>completed\<close> and its file the base name of that
  artifact, whatever the thumbnail task did. (If the record is gone, the registry is
  left as it is.)
\<close>

theorem resolve_marks_completed:
  "\<not> threw (on_settled jobId (Resolves (Some (p0 # ps)) env) s)
   \<and> (\<forall>j. jobs s jobId = Some j \<longrightarrow>
        jobs (state_of (on_settled jobId (Resolves (Some (p0 # ps)) env) s))
          = (jobs s)(jobId \<mapsto>
               j\<lparr>status := Completed, job_file := Some (basename (select_finalFile p0 ps))\<rparr>))
   \<and> (jobs s jobId = None \<longrightarrow>
        jobs (state_of (on_settled jobId (Resolves (Some (p0 # ps)) env) s)) = jobs s)
   \<and> select_finalFile p0 ps \<in> set (p0 # ps)
   \<and> ((\<exists>p \<in> set (p0 # ps). endsWith p ''.mp4'') \<longrightarrow>
        select_finalFile p0 ps = hd (filter (\<lambda>p. endsWith p ''.mp4'') (p0 # ps))
        \<and> endsWith (select_finalFile p0 ps) ''.mp4'')
   \<and> ((\<forall>p \<in> set (p0 # ps). \<not> endsWith p ''.mp4'') \<longrightarrow> select_finalFile p0 ps = p0)"
proof -
  have sel: "select_finalFile p0 ps =
      (case filter (\<lambda>p. endsWith p ''.mp4'') (p0 # ps) of [] \<Rightarrow> p0 | x # _ \<Rightarrow> x)"
    by (simp add: select_finalFile_def extension_def find_hd_filter split: list.splits)
  have mem: "select_finalFile p0 ps \<in> set (p0 # ps)"
  proof (cases "filter (\<lambda>p. endsWith p ''.mp4'') (p0 # ps)")
    case Nil
    then show ?thesis by (simp add: sel)
  next
    case (Cons x xs)
    then have "x \<in> set (filter (\<lambda>p. endsWith p ''.mp4'') (p0 # ps))" by simp
    then have "x \<in> set (p0 # ps)" by (simp only: set_filter) blast
    then show ?thesis using Cons by (simp add: sel)
  qed
  have some: "select_finalFile p0 ps = hd (filter (\<lambda>p. endsWith p ''.mp4'') (p0 # ps))
        \<and> endsWith (select_finalFile p0 ps) ''.mp4''"
    if "\<exists>p \<in> set (p0 # ps). endsWith p ''.mp4''"
  proof (cases "filter (\<lambda>p. endsWith p ''.mp4'') (p0 # ps)")
    case Nil
    then have "\<forall>p \<in> set (p0 # ps). \<not> endsWith p ''.mp4''"
      by (simp only: filter_empty_conv)
    with that show ?thesis by blast
  next
    case (Cons x xs)
    then have "x \<in> set (filter (\<lambda>p. endsWith p ''.mp4'') (p0 # ps))" by simp
    then have "endsWith x ''.mp4''" by (simp only: set_filter) blast
    then show ?thesis using Cons by (simp add: sel)
  qed
  have none: "select_finalFile p0 ps = p0" if "\<forall>p \<in> set (p0 # ps). \<not> endsWith p ''.mp4''"
  proof -
    from that have "filter (\<lambda>p. endsWith p ''.mp4'') (p0 # ps) = []"
      by (simp only: filter_empty_conv)
    then show ?thesis by (simp add: sel)
  qed
  have quiet: "\<not> threw (on_settled jobId (Resolves (Some (p0 # ps)) env) s)"
    by (rule on_settled_not_threw)
  have present: "\<forall>j. jobs s jobId = Some j \<longrightarrow>
        jobs (state_of (on_settled jobId (Resolves (Some (p0 # ps)) env) s))
          = (jobs s)(jobId \<mapsto>
               j\<lparr>status := Completed, job_file := Some (basename (select_finalFile p0 ps))\<rparr>)"
    by (simp add: on_settled_then then_handler_jobs)
  have absent: "jobs s jobId = None \<longrightarrow>
        jobs (state_of (on_settled jobId (Resolves (Some (p0 # ps)) env) s)) = jobs s"
    by (simp add: on_settled_then then_handler_jobs)
  show ?thesis
    using quiet present absent mem some none by blast
qed

theorem resolve_marks_completed_witness:
  "jobs (state_of (on_settled ''j1''
       (Resolves (Some [''/app/temp/a.webm'', ''/app/temp/a.mp4'']) (Exited True None))
       downloaded_state)) ''j1''
    = Some \<lparr>status = Completed, progress = ''100%'', job_file = Some ''a.mp4'',
            customTag = ''HD_128kbps'', title = Some ''Demo''\<rparr>
   \<and> select_finalFile ''/app/temp/a.webm'' [''/app/temp/a.mp4''] = ''/app/temp/a.mp4''
   \<and> select_finalFile ''/app/temp/a.webm'' [''/app/temp/a.mkv''] = ''/app/temp/a.webm''"
proof -
  have facts:
    "jobs downloaded_state ''j1''
       = Some \<lparr>status = Downloading, progress = ''100%'', job_file = None,
               customTag = ''HD_128kbps'', title = Some ''Demo''\<rparr>"
    "endsWith ''/app/temp/a.mp4'' ''.mp4''"
    "\<not> endsWith ''/app/temp/a.webm'' ''.mp4''"
    "\<not> endsWith ''/app/temp/a.mkv'' ''.mp4''"
    "basename ''/app/temp/a.mp4'' = ''a.mp4''"
    by code_simp+
  show ?thesis
    using resolve_marks_completed [of "''j1''" "''/app/temp/a.webm''" "[''/app/temp/a.mp4'']"
        "Exited True None" downloaded_state]
      resolve_marks_completed [of "''j1''" "''/app/temp/a.webm''" "[''/app/temp/a.mkv'']"
        "Exited True None" downloaded_state]
    by (simp add: facts)
qed

text \<open>
  The claim as first stated fails when the promise resolves without any path: the
  handler then does nothing, and the record stays \<open>downloading\<close>.
\<close>

theorem resolve_without_paths_stays_downloading:
  "jobs (state_of (on_settled ''j1'' (Resolves (Some []) (Exited True None)) downloaded_state))
      ''j1''
    = Some \<lparr>status = Downloading, progress = ''100%'', job_file = None,
            customTag = ''HD_128kbps'', title = Some ''Demo''\<rparr>"
  by (simp add: on_settled_def then_handler_def downloaded_state_def)

section \<open>The thumbnail task when embedding is skipped or fails\<close>

text \<open>
  When no thumbnail is found at any of the probed names, or the artifact is missing,
  the task is skipped and nothing changes.
\<close>

lemma thumbnail_task_skipped:
  assumes "(\<forall>t \<in> set (possibleThumbs (baseName_of f)). \<not> existsSync t s) \<or> \<not> existsSync f s"
  shows "thumbnail_task env f s = s"
  using assms
  by (auto simp: thumbnail_task_def find_None_iff find_Some_iff split: option.splits
      dest: nth_mem)

text \<open>
  When \<open>ffmpeg\<close> writes nothing and no file is in the way at the output path, the
  files are as the download left them.
\<close>

lemma thumbnail_task_without_output:
  assumes "files s (embeddedFile_of (baseName_of f)) = None"
  shows "files (thumbnail_task (Exited ok None) f s) = files s"
  using assms
  by (auto simp: thumbnail_task_def try_catch_log_def embed_body_def spawnSync_ffmpeg_def
        existsSync_def Let_def split: option.splits)

text \<open>
  C7. The handler decides whether to replace the artifact by the existence of the
  embedded output alone; the result of \<open>spawnSync\<close> is not inspected. When \<open>ffmpeg\<close>
  exits with a failure after writing part of its output, the original artifact is
  removed and the partial output takes its name, and the job is marked \<open>completed\<close>:
  the final artifact is not the original.
\<close>

theorem failed_embed_replaces_original:
  "files downloaded_state ''/app/temp/a.mp4'' = Some ''video''
   \<and> files (state_of (on_settled ''j1''
         (Resolves (Some [''/app/temp/a.mp4'']) (Exited False (Some ''partial'')))
         downloaded_state)) ''/app/temp/a.mp4'' = Some ''partial''
   \<and> jobs (state_of (on_settled ''j1''
         (Resolves (Some [''/app/temp/a.mp4'']) (Exited False (Some ''partial'')))
         downloaded_state)) ''j1''
      = Some \<lparr>status = Completed, progress = ''100%'', job_file = Some ''a.mp4'',
              customTag = ''HD_128kbps'', title = Some ''Demo''\<rparr>"
  by code_simp

section \<open>Delivery: the guard, and what a finished attempt leaves behind\<close>

text \<open>
  C1, as amended. A file request for a job that is not in the registry, or whose status
  is not \<open>completed\<close>, is answered with 400 and changes nothing at all: the state after
  the request is the state before it. After one delivery attempt has finished, and
  unless the file system refused to remove the artifact, the record is removed, so
  a second request for the same identifier gets that same 400 answer and again
  changes nothing.
\<close>

theorem guard_and_single_delivery:
  "(jobs s jobId = None \<or> (\<exists>j. jobs s jobId = Some j \<and> status j \<noteq> Completed) \<longrightarrow>
      get_file jobId t s = (BadRequest400 ''File not ready'', s)
      \<and> delivery_attempt jobId t err s = (BadRequest400 ''File not ready'', s))
   \<and> (\<forall>fp nm. fst (delivery_attempt jobId t err s) = Download fp nm
         \<and> \<not> removal_refused fp s \<longrightarrow>
         jobs (snd (delivery_attempt jobId t err s)) jobId = None
         \<and> get_file jobId t' (snd (delivery_attempt jobId t err s))
             = (BadRequest400 ''File not ready'', snd (delivery_attempt jobId t err s))
         \<and> delivery_attempt jobId t' err' (snd (delivery_attempt jobId t err s))
             = (BadRequest400 ''File not ready'', snd (delivery_attempt jobId t err s)))"
proof -
  have guard: "get_file jobId t s = (BadRequest400 ''File not ready'', s)
      \<and> delivery_attempt jobId t err s = (BadRequest400 ''File not ready'', s)"
    if "jobs s jobId = None \<or> (\<exists>j. jobs s jobId = Some j \<and> status j \<noteq> Completed)"
    using get_file_not_ready [OF that] by (simp add: delivery_attempt_def)
  have once: "jobs (snd (delivery_attempt jobId t err s)) jobId = None
         \<and> get_file jobId t' (snd (delivery_attempt jobId t err s))
             = (BadRequest400 ''File not ready'', snd (delivery_attempt jobId t err s))
         \<and> delivery_attempt jobId t' err' (snd (delivery_attempt jobId t err s))
             = (BadRequest400 ''File not ready'', snd (delivery_attempt jobId t err s))"
    if d: "fst (delivery_attempt jobId t err s) = Download fp nm" and r: "\<not> removal_refused fp s"
    for fp nm
  proof -
    obtain r0 s0 where g: "get_file jobId t s = (r0, s0)" by (cases "get_file jobId t s")
    have s0: "s0 = s" using get_file_state [of jobId t s] g by simp
    have r0: "r0 = Download fp nm"
      using d g by (cases r0) (simp_all add: delivery_attempt_def)
    have after: "snd (delivery_attempt jobId t err s) = download_callback jobId fp err s"
      using g r0 s0 by (simp add: delivery_attempt_def)
    have gone: "jobs (snd (delivery_attempt jobId t err s)) jobId = None"
      using r by (simp add: after download_callback_result)
    show ?thesis
      using gone get_file_not_ready [of "snd (delivery_attempt jobId t err s)" jobId t']
      by (simp add: delivery_attempt_def)
  qed
  show ?thesis using guard once by blast
qed
theorem guard_and_single_delivery_witness:
  "get_file ''unknown'' ''Demo'' completed_state
     = (BadRequest400 ''File not ready'', completed_state)
   \<and> fst (delivery_attempt ''j1'' ''Demo'' False completed_state)
     = Download ''/app/temp/a.mp4'' ''Demo_HD_128kbps.mp4''
   \<and> fst (delivery_attempt ''j1'' ''Demo'' False
            (snd (delivery_attempt ''j1'' ''Demo'' False completed_state)))
     = BadRequest400 ''File not ready''"
proof -
  have facts:
    "jobs completed_state ''unknown'' = None"
    "fst (delivery_attempt ''j1'' ''Demo'' False completed_state)
       = Download ''/app/temp/a.mp4'' ''Demo_HD_128kbps.mp4''"
    "\<not> removal_refused ''/app/temp/a.mp4'' completed_state"
    by code_simp+
  show ?thesis
    using guard_and_single_delivery [of completed_state "''unknown''" "''Demo''" False "''Demo''" False]
      guard_and_single_delivery [of completed_state "''j1''" "''Demo''" False "''Demo''" False]
    by (simp add: facts)
qed

text \<open>
  The claim as first stated fails when the removal of the artifact is refused: the
  callback's \<open>try\<close> block is left before \<open>delete jobs[...]\<close>, the record stays
  \<open>completed\<close>, and a second request is answered with the file again.
\<close>

theorem refused_cleanup_allows_second_delivery:
  "fst (delivery_attempt ''j1'' ''Demo'' False refusing_state)
     = Download ''/app/temp/a.mp4'' ''Demo_HD_128kbps.mp4''
   \<and> fst (delivery_attempt ''j1'' ''Demo'' False
            (snd (delivery_attempt ''j1'' ''Demo'' False refusing_state)))
     = Download ''/app/temp/a.mp4'' ''Demo_HD_128kbps.mp4''"
  by code_simp

section \<open>Cleanup after a transfer\<close>

text \<open>
  C2, as amended. For a delivery attempt on a completed job, the outcome of the
  transmission has no influence on the cleanup: with or without an error the attempt
  ends in the same state. Unless the file system refuses to remove the artifact, the
  artifact is removed if it still exists and then the record is removed from the
  registry, in this order. If the removal is refused, the exception is caught and the
  state is left as it was, record included. (Every completed record names its file:
  lemma \<open>run_completed_have_files\<close>.)
\<close>

theorem cleanup_after_transfer:
  assumes "jobs s jobId = Some j" and "status j = Completed" and "job_file j = Some f"
  shows "let fp = path_join (tempDir s) f;
             s' = snd (delivery_attempt jobId t err s)
         in fst (delivery_attempt jobId t err s)
              = Download fp (replace_non_alnum t @ ''_'' @ customTag j @ ''.mp4'')
            \<and> delivery_attempt jobId t True s = delivery_attempt jobId t False s
            \<and> (\<not> removal_refused fp s \<longrightarrow>
                 files s' = (files s)(fp := None)
                 \<and> jobs s' = (jobs s)(jobId := None)
                 \<and> new_actions s s'
                     = (if existsSync fp s then [Unlink fp] else []) @ [Deleted jobId])
            \<and> (removal_refused fp s \<longrightarrow> s' = s)"
  using assms
  by (simp add: delivery_attempt_def get_file_completed download_callback_result Let_def
      new_actions_def)
theorem cleanup_after_transfer_witness:
  "fst (delivery_attempt ''j1'' ''Demo'' False completed_state)
     = Download ''/app/temp/a.mp4'' ''Demo_HD_128kbps.mp4''
   \<and> delivery_attempt ''j1'' ''Demo'' True completed_state
     = delivery_attempt ''j1'' ''Demo'' False completed_state
   \<and> files (snd (delivery_attempt ''j1'' ''Demo'' False completed_state)) ''/app/temp/a.mp4''
     = None
   \<and> jobs (snd (delivery_attempt ''j1'' ''Demo'' False completed_state)) ''j1'' = None
   \<and> new_actions completed_state (snd (delivery_attempt ''j1'' ''Demo'' False completed_state))
     = [Unlink ''/app/temp/a.mp4'', Deleted ''j1'']"
proof -
  have facts:
    "jobs completed_state ''j1''
       = Some \<lparr>status = Completed, progress = ''100%'', job_file = Some ''a.mp4'',
               customTag = ''HD_128kbps'', title = Some ''Demo''\<rparr>"
    "path_join (tempDir completed_state) ''a.mp4'' = ''/app/temp/a.mp4''"
    "replace_non_alnum ''Demo'' = ''Demo''"
    "\<not> removal_refused ''/app/temp/a.mp4'' completed_state"
    "existsSync ''/app/temp/a.mp4'' completed_state"
    by code_simp+
  show ?thesis
    using cleanup_after_transfer [of completed_state "''j1''"
        "\<lparr>status = Completed, progress = ''100%'', job_file = Some ''a.mp4'',
          customTag = ''HD_128kbps'', title = Some ''Demo''\<rparr>" "''a.mp4''" "''Demo''" False]
    by (simp add: facts Let_def)
qed

text \<open>
  The claim as first stated fails when the removal of the artifact is refused: the
  file and the record are both still there after the attempt.
\<close>

theorem refused_cleanup_keeps_record:
  "jobs (snd (delivery_attempt ''j1'' ''Demo'' True refusing_state)) ''j1''
     = Some \<lparr>status = Completed, progress = ''100%'', job_file = Some ''a.mp4'',
             customTag = ''HD_128kbps'', title = Some ''Demo''\<rparr>
   \<and> files (snd (delivery_attempt ''j1'' ''Demo'' True refusing_state)) ''/app/temp/a.mp4''
     = Some ''video''"
  by code_simp

section \<open>The delivered file name\<close>

lemma get_file_Download:
  assumes "fst (get_file jobId t s) = Download fp nm"
  shows "\<exists>j f. jobs s jobId = Some j \<and> status j = Completed \<and> job_file j = Some f
           \<and> fp = path_join (tempDir s) f
           \<and> nm = replace_non_alnum t @ ''_'' @ customTag j @ ''.mp4''"
  using assms by (auto simp: get_file_def Let_def split: option.splits if_splits)

lemma or_default_cases:
  "or_default None d = d" "or_default (Some []) d = d" "v \<noteq> [] \<Longrightarrow> or_default (Some v) d = v"
  by (simp_all add: or_default_def js_or_def truthy_def)

text \<open>
  C10, as amended. Whenever a file request is answered with a download, the file name
  sent is the requested title with every character outside \<open>[A-Za-z0-9]\<close> replaced by
  an underscore, then \<open>_\<close>, the tag of the job, and \<open>.mp4\<close>. The tag is the one fixed
  at submission, whatever callbacks ran in between: the video label, \<open>_\<close>, the audio
  label, with \<open>NoVideo\<close> and \<open>NoAudio\<close> in place of a label that is absent or empty.
  The defaults depend on the labels alone: the stream identifiers of the request have
  no influence on the record, and a label sent for a skipped stream is used as it is.
  The regular expression of the source replaces exactly the characters the
  specification names.
\<close>

theorem delivered_filename:
  assumes "\<forall>ev \<in> set evs. \<not> submits jobId ev"
    and "fst (get_file jobId t (state_of (run evs (snd (post_download jobId body s0)))))
           = Download fp nm"
  shows "nm = spec_sanitize t @ ''_'' @ or_default (vLabel body) ''NoVideo'' @ ''_''
                @ or_default (aLabel body) ''NoAudio'' @ ''.mp4''
     \<and> replace_non_alnum t = spec_sanitize t
     \<and> or_default None d = d
     \<and> or_default (Some []) d = d
     \<and> (v \<noteq> [] \<longrightarrow> or_default (Some v) d = v)
     \<and> (\<forall>s j f. jobs s jobId = Some j \<and> status j = Completed \<and> job_file j = Some f \<longrightarrow>
          fst (get_file jobId t s)
            = Download (path_join (tempDir s) f)
                (spec_sanitize t @ ''_'' @ customTag j @ ''.mp4''))
     \<and> jobs (snd (post_download jobId (body\<lparr>vId := x, aId := y\<rparr>) s0)) jobId
         = jobs (snd (post_download jobId body s0)) jobId"
proof -
  have "tag_is jobId (namingTag body) (snd (post_download jobId body s0))"
    by (simp add: tag_is_def post_download_def Let_def)
  then have tag: "tag_is jobId (namingTag body)
      (state_of (run evs (snd (post_download jobId body s0))))"
    using assms(1) by (rule run_tag)
  obtain j where j: "jobs (state_of (run evs (snd (post_download jobId body s0)))) jobId = Some j"
    and nm: "nm = replace_non_alnum t @ ''_'' @ customTag j @ ''.mp4''"
    using get_file_Download [OF assms(2)] by blast
  have "customTag j = namingTag body"
    using tag j by (simp add: tag_is_def)
  then have name: "nm = spec_sanitize t @ ''_'' @ or_default (vLabel body) ''NoVideo'' @ ''_''
                @ or_default (aLabel body) ''NoAudio'' @ ''.mp4''"
    using nm by (simp add: namingTag_def replace_non_alnum_spec)
  have direct: "\<forall>s j f. jobs s jobId = Some j \<and> status j = Completed \<and> job_file j = Some f \<longrightarrow>
          fst (get_file jobId t s)
            = Download (path_join (tempDir s) f)
                (spec_sanitize t @ ''_'' @ customTag j @ ''.mp4'')"
    by (simp add: get_file_completed replace_non_alnum_spec)
  have defaults: "or_default None d = d" "or_default (Some []) d = d"
    "v \<noteq> [] \<longrightarrow> or_default (Some v) d = v"
    by (simp_all add: or_default_cases)
  have same: "replace_non_alnum t = spec_sanitize t"
    by (rule replace_non_alnum_spec)
  have ids: "jobs (snd (post_download jobId (body\<lparr>vId := x, aId := y\<rparr>) s0)) jobId
         = jobs (snd (post_download jobId body s0)) jobId"
    by (simp add: post_download_def namingTag_def Let_def)
  show ?thesis
    using name direct defaults same ids by blast
qed

theorem delivered_filename_witness:
  "fst (get_file ''j1'' ''Demo''
      (state_of (run
         [Progress ''j1'' (Some ''55%''),
          Settled ''j1'' (Resolves (Some [''/app/temp/a.mp4'']) (Exited True None))]
         (snd (post_download ''j1''
            \<lparr>vId = Some ''137'', aId = None, vLabel = Some ''HD'', aLabel = None,
              req_title = Some ''Demo''\<rparr>
            started_state)))))
     = Download ''/app/temp/a.mp4'' ''Demo_HD_NoAudio.mp4''
   \<and> ''Demo_HD_NoAudio.mp4''
     = spec_sanitize ''Demo'' @ ''_'' @ or_default (Some ''HD'') ''NoVideo'' @ ''_''
         @ or_default None ''NoAudio'' @ ''.mp4''
   \<and> replace_non_alnum ''My Demo #1'' = ''My_Demo__1''"
proof -
  have sent: "fst (get_file ''j1'' ''Demo''
      (state_of (run
         [Progress ''j1'' (Some ''55%''),
          Settled ''j1'' (Resolves (Some [''/app/temp/a.mp4'']) (Exited True None))]
         (snd (post_download ''j1''
            \<lparr>vId = Some ''137'', aId = None, vLabel = Some ''HD'', aLabel = None,
              req_title = Some ''Demo''\<rparr>
            started_state)))))
     = Download ''/app/temp/a.mp4'' ''Demo_HD_NoAudio.mp4''"
    by code_simp
  have quiet: "\<forall>ev \<in> set
         [Progress ''j1'' (Some ''55%''),
          Settled ''j1'' (Resolves (Some [''/app/temp/a.mp4'']) (Exited True None))].
       \<not> submits ''j1'' ev"
    by simp
  have other: "replace_non_alnum ''My Demo #1'' = ''My_Demo__1''"
    by code_simp
  show ?thesis
    using delivered_filename [OF quiet sent] sent other by simp
qed

text \<open>
  The claim as first stated, with the defaults read as standing for a skipped stream,
  fails on the request the page itself sends when the video is skipped: the identifier
  is empty, the label is \<open>No Video\<close>, and the label goes into the file name unchanged,
  space included.
\<close>

theorem skipped_stream_keeps_its_label:
  "\<not> truthy (vId \<lparr>vId = Some [], aId = Some ''140'', vLabel = Some ''No Video'',
                    aLabel = Some ''128kbps'', req_title = Some ''Demo''\<rparr>)
   \<and> fst (get_file ''j1'' ''Demo''
      (state_of (run
         [Settled ''j1'' (Resolves (Some [''/app/temp/a.mp4'']) (Exited True None))]
         (snd (post_download ''j1''
            \<lparr>vId = Some [], aId = Some ''140'', vLabel = Some ''No Video'',
              aLabel = Some ''128kbps'', req_title = Some ''Demo''\<rparr>
            started_state)))))
     = Download ''/app/temp/a.mp4'' ''Demo_No Video_128kbps.mp4''"
  by code_simp

end
